theory Spec2Isabelle
  imports Main "HOL-Library.Word" "HOL-Library.Sublist" "HOL-Library.AList"
begin

section \<open>Error-message formatting of the nrfjprog binding (errormessage.cpp)\<close>

subsection \<open>Integers, enumerations and the two name tables\<close>

text \<open>
  \<open>errorCode\<close> is a C++ \<open>int\<close>, and \<open>lowlevelError\<close> an unscoped enumeration
  that is promoted to \<open>int\<close> when it is compared or streamed: both are 32-bit
  two's-complement values.
\<close>

type_synonym c_int = "32 word"

text \<open>
  The enumerators that the two static tables list, in the order of the tables. The
  headers that give the enumerators their numeric values are not among the sources, so
  every operation that consults a table takes the numbering as a parameter:
  \<open>ec\<close> numbers \<open>errorcodes\<close> and \<open>dc\<close> numbers \<open>nrfjprogdll_err_t\<close>.
\<close>

datatype errorcodes =
    JsSuccess
  | CouldNotFindJlinkDLL
  | CouldNotFindJprogDLL
  | CouldNotLoadDLL
  | CouldNotOpenDLL
  | CouldNotOpenDevice
  | CouldNotResetDevice
  | CouldNotCloseDevice
  | CouldNotConnectToDevice
  | CouldNotCallFunction
  | CouldNotErase
  | CouldNotProgram
  | CouldNotRead
  | CouldNotOpenHexFile
  | WrongMagicNumber

datatype nrfjprogdll_err_t =
    SUCCESS
  | OUT_OF_MEMORY
  | INVALID_OPERATION
  | INVALID_PARAMETER
  | INVALID_DEVICE_FOR_OPERATION
  | WRONG_FAMILY_FOR_DEVICE
  | EMULATOR_NOT_CONNECTED
  | CANNOT_CONNECT
  | LOW_VOLTAGE
  | NO_EMULATOR_CONNECTED
  | FAMILY_UNKNOWN
  | NVMC_ERROR
  | RECOVER_FAILED
  | RAM_IS_OFF_ERROR
  | QspiIniNotFoundError
  | QspiIniCannotBeOpenedError
  | QspiSyntaxError
  | QspiIniParsingError
  | NOT_AVAILABLE_BECAUSE_PROTECTION
  | NOT_AVAILABLE_BECAUSE_MPU_CONFIG
  | JLINKARM_DLL_NOT_FOUND
  | JLINKARM_DLL_COULD_NOT_BE_OPENED
  | JLINKARM_DLL_ERROR
  | JLINKARM_DLL_TOO_OLD
  | NRFJPROG_SUB_DLL_NOT_FOUND
  | NRFJPROG_SUB_DLL_COULD_NOT_BE_OPENED
  | NRFJPROG_SUB_DLL_COULD_NOT_LOAD_FUNCTIONS
  | NOT_IMPLEMENTED_ERROR

text \<open>
  \<open>name_map_t\<close>: the initialiser list of a \<open>std::map\<close> from code to name. Of two
  entries with the same key the map keeps the first, as \<open>map_of\<close> does.
\<close>

type_synonym name_map_t = "(c_int \<times> string) list"

definition nrfjprog_js_err_map :: "(errorcodes \<Rightarrow> c_int) \<Rightarrow> name_map_t" where
  "nrfjprog_js_err_map ec =
    [ (ec JsSuccess, ''Success''),
      (ec CouldNotFindJlinkDLL, ''CouldNotFindJlinkDLL''),
      (ec CouldNotFindJprogDLL, ''CouldNotFindJprogDLL''),
      (ec CouldNotLoadDLL, ''CouldNotLoadDLL''),
      (ec CouldNotOpenDLL, ''CouldNotOpenDLL''),
      (ec CouldNotOpenDevice, ''CouldNotOpenDevice''),
      (ec CouldNotResetDevice, ''CouldNotResetDevice''),
      (ec CouldNotCloseDevice, ''CouldNotCloseDevice''),
      (ec CouldNotConnectToDevice, ''CouldNotConnectToDevice''),
      (ec CouldNotCallFunction, ''CouldNotCallFunction''),
      (ec CouldNotErase, ''CouldNotErase''),
      (ec CouldNotProgram, ''CouldNotProgram''),
      (ec CouldNotRead, ''CouldNotRead''),
      (ec CouldNotOpenHexFile, ''CouldNotOpenHexFile''),
      (ec WrongMagicNumber, ''WrongMagicNumber'') ]"

text \<open>
  Modelled from the spec: the macro \<open>NAME_MAP_ENTRY\<close> is declared in a header that is
  not among the sources. The spec describes a table entry as a pair of an integer code
  and its display name; the display name of an enumerator is taken to be its identifier.
\<close>

fun enumerator_name :: "nrfjprogdll_err_t \<Rightarrow> string" where
  "enumerator_name SUCCESS = ''SUCCESS''"
| "enumerator_name OUT_OF_MEMORY = ''OUT_OF_MEMORY''"
| "enumerator_name INVALID_OPERATION = ''INVALID_OPERATION''"
| "enumerator_name INVALID_PARAMETER = ''INVALID_PARAMETER''"
| "enumerator_name INVALID_DEVICE_FOR_OPERATION = ''INVALID_DEVICE_FOR_OPERATION''"
| "enumerator_name WRONG_FAMILY_FOR_DEVICE = ''WRONG_FAMILY_FOR_DEVICE''"
| "enumerator_name EMULATOR_NOT_CONNECTED = ''EMULATOR_NOT_CONNECTED''"
| "enumerator_name CANNOT_CONNECT = ''CANNOT_CONNECT''"
| "enumerator_name LOW_VOLTAGE = ''LOW_VOLTAGE''"
| "enumerator_name NO_EMULATOR_CONNECTED = ''NO_EMULATOR_CONNECTED''"
| "enumerator_name FAMILY_UNKNOWN = ''FAMILY_UNKNOWN''"
| "enumerator_name NVMC_ERROR = ''NVMC_ERROR''"
| "enumerator_name RECOVER_FAILED = ''RECOVER_FAILED''"
| "enumerator_name RAM_IS_OFF_ERROR = ''RAM_IS_OFF_ERROR''"
| "enumerator_name QspiIniNotFoundError = ''QspiIniNotFoundError''"
| "enumerator_name QspiIniCannotBeOpenedError = ''QspiIniCannotBeOpenedError''"
| "enumerator_name QspiSyntaxError = ''QspiSyntaxError''"
| "enumerator_name QspiIniParsingError = ''QspiIniParsingError''"
| "enumerator_name NOT_AVAILABLE_BECAUSE_PROTECTION = ''NOT_AVAILABLE_BECAUSE_PROTECTION''"
| "enumerator_name NOT_AVAILABLE_BECAUSE_MPU_CONFIG = ''NOT_AVAILABLE_BECAUSE_MPU_CONFIG''"
| "enumerator_name JLINKARM_DLL_NOT_FOUND = ''JLINKARM_DLL_NOT_FOUND''"
| "enumerator_name JLINKARM_DLL_COULD_NOT_BE_OPENED = ''JLINKARM_DLL_COULD_NOT_BE_OPENED''"
| "enumerator_name JLINKARM_DLL_ERROR = ''JLINKARM_DLL_ERROR''"
| "enumerator_name JLINKARM_DLL_TOO_OLD = ''JLINKARM_DLL_TOO_OLD''"
| "enumerator_name NRFJPROG_SUB_DLL_NOT_FOUND = ''NRFJPROG_SUB_DLL_NOT_FOUND''"
| "enumerator_name NRFJPROG_SUB_DLL_COULD_NOT_BE_OPENED =
     ''NRFJPROG_SUB_DLL_COULD_NOT_BE_OPENED''"
| "enumerator_name NRFJPROG_SUB_DLL_COULD_NOT_LOAD_FUNCTIONS =
     ''NRFJPROG_SUB_DLL_COULD_NOT_LOAD_FUNCTIONS''"
| "enumerator_name NOT_IMPLEMENTED_ERROR = ''NOT_IMPLEMENTED_ERROR''"

text \<open>
  Modelled from the spec: \<open>NAME_MAP_ENTRY(E)\<close> is the table entry of the enumerator
  \<open>E\<close>, its integer code paired with its display name.
\<close>

definition NAME_MAP_ENTRY :: "(nrfjprogdll_err_t \<Rightarrow> c_int) \<Rightarrow> nrfjprogdll_err_t \<Rightarrow> c_int \<times> string" where
  "NAME_MAP_ENTRY dc e = (dc e, enumerator_name e)"

definition nrfjprogdll_err_t_map :: "(nrfjprogdll_err_t \<Rightarrow> c_int) \<Rightarrow> name_map_t" where
  "nrfjprogdll_err_t_map dc =
    [ NAME_MAP_ENTRY dc SUCCESS,
      NAME_MAP_ENTRY dc OUT_OF_MEMORY,
      NAME_MAP_ENTRY dc INVALID_OPERATION,
      NAME_MAP_ENTRY dc INVALID_PARAMETER,
      NAME_MAP_ENTRY dc INVALID_DEVICE_FOR_OPERATION,
      NAME_MAP_ENTRY dc WRONG_FAMILY_FOR_DEVICE,
      NAME_MAP_ENTRY dc EMULATOR_NOT_CONNECTED,
      NAME_MAP_ENTRY dc CANNOT_CONNECT,
      NAME_MAP_ENTRY dc LOW_VOLTAGE,
      NAME_MAP_ENTRY dc NO_EMULATOR_CONNECTED,
      NAME_MAP_ENTRY dc FAMILY_UNKNOWN,
      NAME_MAP_ENTRY dc NVMC_ERROR,
      NAME_MAP_ENTRY dc RECOVER_FAILED,
      NAME_MAP_ENTRY dc RAM_IS_OFF_ERROR,
      NAME_MAP_ENTRY dc QspiIniNotFoundError,
      NAME_MAP_ENTRY dc QspiIniCannotBeOpenedError,
      NAME_MAP_ENTRY dc QspiSyntaxError,
      NAME_MAP_ENTRY dc QspiIniParsingError,
      NAME_MAP_ENTRY dc NOT_AVAILABLE_BECAUSE_PROTECTION,
      NAME_MAP_ENTRY dc NOT_AVAILABLE_BECAUSE_MPU_CONFIG,
      NAME_MAP_ENTRY dc JLINKARM_DLL_NOT_FOUND,
      NAME_MAP_ENTRY dc JLINKARM_DLL_COULD_NOT_BE_OPENED,
      NAME_MAP_ENTRY dc JLINKARM_DLL_ERROR,
      NAME_MAP_ENTRY dc JLINKARM_DLL_TOO_OLD,
      NAME_MAP_ENTRY dc NRFJPROG_SUB_DLL_NOT_FOUND,
      NAME_MAP_ENTRY dc NRFJPROG_SUB_DLL_COULD_NOT_BE_OPENED,
      NAME_MAP_ENTRY dc NRFJPROG_SUB_DLL_COULD_NOT_LOAD_FUNCTIONS,
      NAME_MAP_ENTRY dc NOT_IMPLEMENTED_ERROR ]"

text \<open>
  Modelled from the spec: \<open>Convert::valueToString\<close> is defined in conversion.cpp, which
  is not among the sources. The spec: the tables map an integer code to a display name,
  and "unknown codes fall back to a literal \<open>Unknown\<close> name rather than failing".
\<close>

definition valueToString :: "c_int \<Rightarrow> name_map_t \<Rightarrow> string" where
  "valueToString v name_map =
     (case map_of name_map v of None \<Rightarrow> ''Unknown'' | Some n \<Rightarrow> n)"

subsection \<open>What the output stream writes\<close>

text \<open>\<open>std::endl\<close> writes a line feed.\<close>

definition endl :: string where
  "endl = [CHR 0x0A]"

definition hex_digit :: "nat \<Rightarrow> char" where
  "hex_digit d = ''0123456789abcdef'' ! d"

fun hex_of_nat :: "nat \<Rightarrow> string" where
  "hex_of_nat n =
     (if n < 16 then [hex_digit n] else hex_of_nat (n div 16) @ [hex_digit (n mod 16)])"

declare hex_of_nat.simps [simp del]

text \<open>
  An \<open>int\<close> written while the stream's base is \<open>std::hex\<close>: the digits of the value
  converted to \<open>unsigned int\<close>, lower case, with no prefix and no leading zeros.
\<close>

definition show_hex :: "c_int \<Rightarrow> string" where
  "show_hex v = hex_of_nat (unat v)"

text \<open>
  An integer written in base ten, as the stream writes it before \<open>std::hex\<close> is set and
  as the scripting environment prints a whole number.
\<close>

definition dec_digit :: "nat \<Rightarrow> char" where
  "dec_digit d = ''0123456789'' ! d"

fun dec_of_nat :: "nat \<Rightarrow> string" where
  "dec_of_nat n =
     (if n < 10 then [dec_digit n] else dec_of_nat (n div 10) @ [dec_digit (n mod 10)])"

declare dec_of_nat.simps [simp del]

definition show_dec :: "int \<Rightarrow> string" where
  "show_dec i = (if i < 0 then CHR ''-'' # dec_of_nat (nat (- i)) else dec_of_nat (nat i))"

subsection \<open>Script values\<close>

text \<open>
  The values handed back to the scripting environment: \<open>Nan::Undefined()\<close>, numbers,
  strings, and the error object that \<open>Nan::Error\<close> creates, which carries its message and
  the properties set on it afterwards, in the order they were first set.
\<close>

datatype js_value = JsNumber int | JsString string

record js_error =
  message :: js_value
  properties :: "(string \<times> js_value) list"

datatype v8_value = Undefined | Error js_error

text \<open>
  Modelled from the spec: \<open>Convert::toJsString\<close> is defined in conversion.cpp, which is
  not among the sources. The spec: the texts are "copied at construction time" into the
  error object; the script string holds the characters of the C++ string.
\<close>

definition toJsString :: "string \<Rightarrow> js_value" where
  "toJsString s = JsString s"

text \<open>
  Modelled from the spec: \<open>Convert::toJsNumber\<close> is defined in conversion.cpp, which is
  not among the sources. The spec: the error object carries the "numeric code"; the
  script number is the signed value of the \<open>int\<close>.
\<close>

definition toJsNumber :: "c_int \<Rightarrow> js_value" where
  "toJsNumber v = JsNumber (sint v)"

text \<open>
  Modelled from the spec: \<open>Utility::Set\<close> is defined in utility.cpp, which is not among
  the sources. The spec: the codes, names and texts are attached to the error object as
  named fields. Setting a property that is there already replaces its value.
\<close>

definition Utility_Set :: "js_error \<Rightarrow> string \<Rightarrow> js_value \<Rightarrow> js_error" where
  "Utility_Set obj name v = obj\<lparr>properties := AList.update name v (properties obj)\<rparr>"

text \<open>
  Modelled from the spec: the overload of \<open>Utility::Set\<close> that takes a C string, as
  lines 123 and 127 call it with the result of \<open>Convert::valueToString\<close>, stores the
  string as a script string.
\<close>

definition Utility_Set_cstr :: "js_error \<Rightarrow> string \<Rightarrow> string \<Rightarrow> js_error" where
  "Utility_Set_cstr obj name s = Utility_Set obj name (toJsString s)"

text \<open>\<open>Nan::Error\<close>: a fresh error object with the given message and no other property.\<close>

definition Nan_Error :: "js_value \<Rightarrow> js_error" where
  "Nan_Error msg = \<lparr>message = msg, properties = []\<rparr>"

text \<open>\<open>->ToString()\<close>: a script string is returned as it is, a number in base ten.\<close>

fun ToString :: "js_value \<Rightarrow> js_value" where
  "ToString (JsString s) = JsString s"
| "ToString (JsNumber n) = JsString (show_dec n)"

subsection \<open>The three operations\<close>

text \<open>
  The content of \<open>errorStringStream\<close> when the error object is built (lines 105 to 117).
  \<open>std::hex\<close> is set while the binding code is written and stays set on the stream, so
  the vendor code written after it is in base sixteen as well.
\<close>

definition errorStringStream ::
  "(errorcodes \<Rightarrow> c_int) \<Rightarrow> (nrfjprogdll_err_t \<Rightarrow> c_int) \<Rightarrow>
     c_int \<Rightarrow> string \<Rightarrow> string \<Rightarrow> c_int \<Rightarrow> string" where
  "errorStringStream ec dc errorCode customMessage logmessage lowlevelError =
     (let s0 = ''Error occured when '' @ customMessage @ ''. ''
                 @ ''Errorcode: '' @ valueToString errorCode (nrfjprog_js_err_map ec)
                 @ '' (0x'' @ show_hex errorCode @ '')'' @ endl;
          s1 = (if lowlevelError \<noteq> dc SUCCESS
                then s0 @ ''Lowlevel error: ''
                       @ valueToString lowlevelError (nrfjprogdll_err_t_map dc)
                       @ '' ('' @ show_hex lowlevelError @ '')'' @ endl
                else s0);
          s2 = (if logmessage \<noteq> [] then s1 @ logmessage @ endl else s1)
      in s2)"

definition getErrorMessage ::
  "(errorcodes \<Rightarrow> c_int) \<Rightarrow> (nrfjprogdll_err_t \<Rightarrow> c_int) \<Rightarrow>
     c_int \<Rightarrow> string \<Rightarrow> string \<Rightarrow> c_int \<Rightarrow> v8_value" where
  "getErrorMessage ec dc errorCode customMessage logmessage lowlevelError =
     (if errorCode = ec JsSuccess then Undefined
      else
        let str = errorStringStream ec dc errorCode customMessage logmessage lowlevelError;
            error = Nan_Error (ToString (toJsString str));
            errorObject = error;
            errorObject = Utility_Set errorObject ''errno'' (toJsNumber errorCode);
            errorObject = Utility_Set_cstr errorObject ''errcode''
                            (valueToString errorCode (nrfjprog_js_err_map ec));
            errorObject = Utility_Set errorObject ''erroperation'' (toJsString customMessage);
            errorObject = Utility_Set errorObject ''errmsg'' (toJsString str);
            errorObject = Utility_Set errorObject ''lowlevelErrorNo'' (toJsNumber lowlevelError);
            errorObject = Utility_Set_cstr errorObject ''lowlevelError''
                            (valueToString lowlevelError (nrfjprogdll_err_t_map dc));
            errorObject = Utility_Set errorObject ''output'' (toJsString logmessage)
        in Error errorObject)"

definition getTypeErrorMessage :: "c_int \<Rightarrow> string \<Rightarrow> js_value" where
  "getTypeErrorMessage argumentNumber msg =
     (let stream =
            (if argumentNumber = 0 then ''First''
             else if argumentNumber = 1 then ''Second''
             else if argumentNumber = 2 then ''Third''
             else if argumentNumber = 3 then ''Fourth''
             else if argumentNumber = 4 then ''Fifth''
             else if argumentNumber = 5 then ''Sixth''
             else if argumentNumber = 6 then ''Seventh''
             else ''Unknown'');
          stream = stream @ '' argument must be a '' @ msg
      in ToString (toJsString stream))"

definition getStructErrorMessage :: "string \<Rightarrow> string \<Rightarrow> js_value" where
  "getStructErrorMessage name msg =
     (let stream = ''Property: '' @ name @ '' Message: '' @ msg
      in ToString (toJsString stream))"

subsection \<open>Reading a rendered number back\<close>

text \<open>
  The value of a string of hexadecimal digits, most significant digit first. It is used
  only to state that \<open>show_hex\<close> loses nothing of the 32-bit value it renders.
\<close>

definition hex_digit_value :: "char \<Rightarrow> nat" where
  "hex_digit_value c = length (takeWhile (\<lambda>d. d \<noteq> c) ''0123456789abcdef'')"

definition hex_value :: "string \<Rightarrow> nat" where
  "hex_value s = foldl (\<lambda>a c. 16 * a + hex_digit_value c) 0 s"

subsection \<open>A numbering for the closed examples\<close>

text \<open>
  The theorems below hold for every numbering of the two enumerations. Their closed
  instances need one: here both enumerations are numbered from zero in the order of their
  enumerators, which is how C++ numbers enumerators that carry no initialiser, and which
  gives both success codes the value zero, as the spec's data model says.
\<close>

fun errorcodes_from_zero :: "errorcodes \<Rightarrow> c_int" where
  "errorcodes_from_zero JsSuccess = 0"
| "errorcodes_from_zero CouldNotFindJlinkDLL = 1"
| "errorcodes_from_zero CouldNotFindJprogDLL = 2"
| "errorcodes_from_zero CouldNotLoadDLL = 3"
| "errorcodes_from_zero CouldNotOpenDLL = 4"
| "errorcodes_from_zero CouldNotOpenDevice = 5"
| "errorcodes_from_zero CouldNotResetDevice = 6"
| "errorcodes_from_zero CouldNotCloseDevice = 7"
| "errorcodes_from_zero CouldNotConnectToDevice = 8"
| "errorcodes_from_zero CouldNotCallFunction = 9"
| "errorcodes_from_zero CouldNotErase = 10"
| "errorcodes_from_zero CouldNotProgram = 11"
| "errorcodes_from_zero CouldNotRead = 12"
| "errorcodes_from_zero CouldNotOpenHexFile = 13"
| "errorcodes_from_zero WrongMagicNumber = 14"

fun err_t_from_zero :: "nrfjprogdll_err_t \<Rightarrow> c_int" where
  "err_t_from_zero SUCCESS = 0"
| "err_t_from_zero OUT_OF_MEMORY = 1"
| "err_t_from_zero INVALID_OPERATION = 2"
| "err_t_from_zero INVALID_PARAMETER = 3"
| "err_t_from_zero INVALID_DEVICE_FOR_OPERATION = 4"
| "err_t_from_zero WRONG_FAMILY_FOR_DEVICE = 5"
| "err_t_from_zero EMULATOR_NOT_CONNECTED = 6"
| "err_t_from_zero CANNOT_CONNECT = 7"
| "err_t_from_zero LOW_VOLTAGE = 8"
| "err_t_from_zero NO_EMULATOR_CONNECTED = 9"
| "err_t_from_zero FAMILY_UNKNOWN = 10"
| "err_t_from_zero NVMC_ERROR = 11"
| "err_t_from_zero RECOVER_FAILED = 12"
| "err_t_from_zero RAM_IS_OFF_ERROR = 13"
| "err_t_from_zero QspiIniNotFoundError = 14"
| "err_t_from_zero QspiIniCannotBeOpenedError = 15"
| "err_t_from_zero QspiSyntaxError = 16"
| "err_t_from_zero QspiIniParsingError = 17"
| "err_t_from_zero NOT_AVAILABLE_BECAUSE_PROTECTION = 18"
| "err_t_from_zero NOT_AVAILABLE_BECAUSE_MPU_CONFIG = 19"
| "err_t_from_zero JLINKARM_DLL_NOT_FOUND = 20"
| "err_t_from_zero JLINKARM_DLL_COULD_NOT_BE_OPENED = 21"
| "err_t_from_zero JLINKARM_DLL_ERROR = 22"
| "err_t_from_zero JLINKARM_DLL_TOO_OLD = 23"
| "err_t_from_zero NRFJPROG_SUB_DLL_NOT_FOUND = 24"
| "err_t_from_zero NRFJPROG_SUB_DLL_COULD_NOT_BE_OPENED = 25"
| "err_t_from_zero NRFJPROG_SUB_DLL_COULD_NOT_LOAD_FUNCTIONS = 26"
| "err_t_from_zero NOT_IMPLEMENTED_ERROR = 27"

section \<open>Properties\<close>

subsection \<open>The rendering of numbers\<close>

lemma hex_digit_value_hex_digit: "d < 16 \<Longrightarrow> hex_digit_value (hex_digit d) = d"
proof -
  have "\<forall>d \<in> set [0..<16]. hex_digit_value (hex_digit d) = d"
    by (simp add: upt_rec hex_digit_value_def hex_digit_def)
  then show "d < 16 \<Longrightarrow> hex_digit_value (hex_digit d) = d"
    by simp
qed

lemma hex_value_hex_of_nat: "hex_value (hex_of_nat n) = n"
proof (induction n rule: hex_of_nat.induct)
  case (1 n)
  show ?case
  proof (cases "n < 16")
    case True
    then show ?thesis
      by (simp add: hex_of_nat.simps [of n] hex_value_def hex_digit_value_hex_digit)
  next
    case False
    with 1 have "hex_value (hex_of_nat (n div 16)) = n div 16" by simp
    with False show ?thesis
      by (simp add: hex_of_nat.simps [of n] hex_value_def hex_digit_value_hex_digit)
  qed
qed

text \<open>The digits \<open>show_hex\<close> writes denote the code read as an unsigned 32-bit value.\<close>

lemma hex_value_show_hex: "hex_value (show_hex v) = unat v"
  by (simp add: show_hex_def hex_value_hex_of_nat)

subsection \<open>The shape of the message and of the error object\<close>

lemma errorStringStream_sections:
  "errorStringStream ec dc errorCode customMessage logmessage lowlevelError =
     (''Error occured when '' @ customMessage @ ''. Errorcode: ''
        @ valueToString errorCode (nrfjprog_js_err_map ec)
        @ '' (0x'' @ show_hex errorCode @ '')'' @ endl)
     @ (if lowlevelError \<noteq> dc SUCCESS
        then ''Lowlevel error: '' @ valueToString lowlevelError (nrfjprogdll_err_t_map dc)
               @ '' ('' @ show_hex lowlevelError @ '')'' @ endl
        else [])
     @ (if logmessage \<noteq> [] then logmessage @ endl else [])"
  by (simp add: errorStringStream_def Let_def)

lemma getErrorMessage_Error:
  assumes "errorCode \<noteq> ec JsSuccess"
  shows "getErrorMessage ec dc errorCode customMessage logmessage lowlevelError =
     Error \<lparr>message =
              JsString (errorStringStream ec dc errorCode customMessage logmessage lowlevelError),
            properties =
              [ (''errno'', JsNumber (sint errorCode)),
                (''errcode'', JsString (valueToString errorCode (nrfjprog_js_err_map ec))),
                (''erroperation'', JsString customMessage),
                (''errmsg'',
                 JsString (errorStringStream ec dc errorCode customMessage logmessage lowlevelError)),
                (''lowlevelErrorNo'', JsNumber (sint lowlevelError)),
                (''lowlevelError'',
                 JsString (valueToString lowlevelError (nrfjprogdll_err_t_map dc))),
                (''output'', JsString logmessage) ]\<rparr>"
  using assms
  by (simp add: getErrorMessage_def Let_def Utility_Set_def Utility_Set_cstr_def Nan_Error_def
      toJsString_def toJsNumber_def)

lemma binding_section_prefix:
  "prefix (''Error occured when '' @ customMessage @ ''. Errorcode: ''
             @ valueToString errorCode (nrfjprog_js_err_map ec)
             @ '' (0x'' @ show_hex errorCode @ '')'' @ endl)
          (errorStringStream ec dc errorCode customMessage logmessage lowlevelError)"
  unfolding errorStringStream_sections by (rule prefixI) (rule refl)

lemma valueToString_Unknown:
  "v \<notin> fst ` set name_map \<Longrightarrow> valueToString v name_map = ''Unknown''"
  by (simp add: valueToString_def map_of_eq_None_iff [THEN iffD2])

lemma JsSuccess_in_table: "ec JsSuccess \<in> fst ` set (nrfjprog_js_err_map ec)"
  by (simp add: nrfjprog_js_err_map_def)

lemma SUCCESS_in_table: "dc SUCCESS \<in> fst ` set (nrfjprogdll_err_t_map dc)"
  by (simp add: nrfjprogdll_err_t_map_def NAME_MAP_ENTRY_def)

lemma binding_name_has_no_digit:
  "CHR ''1'' \<notin> set (valueToString v (nrfjprog_js_err_map ec))"
  by (simp add: valueToString_def nrfjprog_js_err_map_def)

text \<open>
  Whatever the numbering of the enumerations, the message for the binding code 10 does not
  contain the code in base ten: no name of the table and no other part of the message
  holds the digit 1.
\<close>

lemma decimal_absent_for_every_numbering:
  "\<not> sublist (show_dec (sint (10 :: c_int))) (errorStringStream ec dc 10 ''erasing'' [] (dc SUCCESS))"
proof
  assume "sublist (show_dec (sint (10 :: c_int))) (errorStringStream ec dc 10 ''erasing'' [] (dc SUCCESS))"
  then have "set (show_dec (sint (10 :: c_int)))
               \<subseteq> set (errorStringStream ec dc 10 ''erasing'' [] (dc SUCCESS))"
    by (rule set_mono_sublist)
  moreover have "CHR ''1'' \<in> set (show_dec (sint (10 :: c_int)))"
    by (simp add: show_dec_def dec_of_nat.simps dec_digit_def)
  ultimately have "CHR ''1'' \<in> set (errorStringStream ec dc 10 ''erasing'' [] (dc SUCCESS))"
    by blast
  then show False
    using binding_name_has_no_digit [of 10 ec]
    by (simp add: errorStringStream_sections show_hex_def hex_of_nat.simps hex_digit_def endl_def)
qed

text \<open>
  What the stream holds for a non-success binding code and a vendor code other than
  \<open>SUCCESS\<close>: the binding section, then the vendor section with the vendor error name
  and the vendor code, then the log text and a line feed exactly when the log text is not
  empty. The vendor code is written while the stream is still in base sixteen: its digits
  are those of \<open>show_hex\<close>, without the \<open>0x\<close> prefix.
\<close>

lemma vendor_section_and_log:
  assumes "errorCode \<noteq> ec JsSuccess" and "lowlevelError \<noteq> dc SUCCESS"
  shows "\<exists>e. getErrorMessage ec dc errorCode customMessage logmessage lowlevelError = Error e
     \<and> message e =
         JsString ((''Error occured when '' @ customMessage @ ''. Errorcode: ''
                      @ valueToString errorCode (nrfjprog_js_err_map ec)
                      @ '' (0x'' @ show_hex errorCode @ '')'' @ endl)
                   @ (''Lowlevel error: ''
                      @ valueToString lowlevelError (nrfjprogdll_err_t_map dc)
                      @ '' ('' @ show_hex lowlevelError @ '')'' @ endl)
                   @ (if logmessage \<noteq> [] then logmessage @ endl else []))
     \<and> sublist (valueToString lowlevelError (nrfjprogdll_err_t_map dc)
                  @ '' ('' @ show_hex lowlevelError @ '')'')
          (errorStringStream ec dc errorCode customMessage logmessage lowlevelError)
     \<and> hex_value (show_hex lowlevelError) = unat lowlevelError"
proof -
  let ?str = "errorStringStream ec dc errorCode customMessage logmessage lowlevelError"
  let ?vendor = "valueToString lowlevelError (nrfjprogdll_err_t_map dc)
                   @ '' ('' @ show_hex lowlevelError @ '')''"
  let ?ps = "(''Error occured when '' @ customMessage @ ''. Errorcode: ''
                @ valueToString errorCode (nrfjprog_js_err_map ec)
                @ '' (0x'' @ show_hex errorCode @ '')'' @ endl) @ ''Lowlevel error: ''"
  let ?ss = "endl @ (if logmessage \<noteq> [] then logmessage @ endl else [])"
  from assms(2) have "?str = ?ps @ ?vendor @ ?ss"
    by (simp add: errorStringStream_sections)
  then have "sublist ?vendor ?str"
    unfolding sublist_def by blast
  with assms show ?thesis
    by (simp add: getErrorMessage_Error errorStringStream_sections hex_value_show_hex)
qed

lemma vendor_section_and_log_example:
  "(10 :: c_int) \<noteq> errorcodes_from_zero JsSuccess
   \<and> (26 :: c_int) \<noteq> err_t_from_zero SUCCESS
   \<and> (\<exists>e. getErrorMessage errorcodes_from_zero err_t_from_zero 10 ''erasing'' ''log'' 26
              = Error e
        \<and> message e =
            JsString (''Error occured when erasing. Errorcode: CouldNotErase (0xa)'' @ endl
              @ ''Lowlevel error: NRFJPROG_SUB_DLL_COULD_NOT_LOAD_FUNCTIONS (1a)'' @ endl
              @ ''log'' @ endl))
   \<and> (\<exists>e. getErrorMessage errorcodes_from_zero err_t_from_zero 10 ''erasing'' [] 26
              = Error e
        \<and> message e =
            JsString (''Error occured when erasing. Errorcode: CouldNotErase (0xa)'' @ endl
              @ ''Lowlevel error: NRFJPROG_SUB_DLL_COULD_NOT_LOAD_FUNCTIONS (1a)'' @ endl))"
proof -
  have binding: "(10 :: c_int) \<noteq> errorcodes_from_zero JsSuccess"
    and vendor: "(26 :: c_int) \<noteq> err_t_from_zero SUCCESS"
    by simp_all
  have names: "valueToString 10 (nrfjprog_js_err_map errorcodes_from_zero) = ''CouldNotErase''"
    "valueToString 26 (nrfjprogdll_err_t_map err_t_from_zero)
       = ''NRFJPROG_SUB_DLL_COULD_NOT_LOAD_FUNCTIONS''"
    "show_hex 10 = ''a''" "show_hex 26 = ''1a''"
    by (simp_all add: valueToString_def nrfjprog_js_err_map_def nrfjprogdll_err_t_map_def
        NAME_MAP_ENTRY_def show_hex_def hex_of_nat.simps hex_digit_def)
  from vendor_section_and_log
    [where errorCode = 10 and ec = errorcodes_from_zero and dc = err_t_from_zero
       and customMessage = "''erasing''" and logmessage = "''log''" and lowlevelError = 26,
     OF binding vendor]
  have with_log: "\<exists>e. getErrorMessage errorcodes_from_zero err_t_from_zero 10 ''erasing'' ''log'' 26
              = Error e
        \<and> message e =
            JsString (''Error occured when erasing. Errorcode: CouldNotErase (0xa)'' @ endl
              @ ''Lowlevel error: NRFJPROG_SUB_DLL_COULD_NOT_LOAD_FUNCTIONS (1a)'' @ endl
              @ ''log'' @ endl)"
    by (auto simp add: names)
  from vendor_section_and_log
    [where errorCode = 10 and ec = errorcodes_from_zero and dc = err_t_from_zero
       and customMessage = "''erasing''" and logmessage = "[]" and lowlevelError = 26,
     OF binding vendor]
  have without_log: "\<exists>e. getErrorMessage errorcodes_from_zero err_t_from_zero 10 ''erasing'' [] 26
              = Error e
        \<and> message e =
            JsString (''Error occured when erasing. Errorcode: CouldNotErase (0xa)'' @ endl
              @ ''Lowlevel error: NRFJPROG_SUB_DLL_COULD_NOT_LOAD_FUNCTIONS (1a)'' @ endl)"
    by (auto simp add: names)
  from binding vendor with_log without_log show ?thesis
    by blast
qed

subsection \<open>The claims\<close>

text \<open>
  C1. Whatever the operation description, the log text and the vendor code are, the
  binding-level success code \<open>JsSuccess\<close> yields \<open>Undefined\<close> and no error object.
\<close>

theorem C1_success_is_undefined:
  "getErrorMessage ec dc (ec JsSuccess) customMessage logmessage lowlevelError = Undefined"
  by (simp add: getErrorMessage_def)

text \<open>
  C2, as the spec states it, asks for the binding code in base ten and in base sixteen.
  The stream writes it once, after \<open>std::hex\<close>: for the code 10 the message reads
  \<open>(0xa)\<close> and the decimal rendering \<open>10\<close> occurs nowhere in it.
\<close>

theorem C2_decimal_counterexample:
  "getErrorMessage errorcodes_from_zero err_t_from_zero 10 ''erasing'' [] 0 =
     Error \<lparr>message =
              JsString (''Error occured when erasing. Errorcode: CouldNotErase (0xa)'' @ endl),
            properties =
              [ (''errno'', JsNumber 10),
                (''errcode'', JsString ''CouldNotErase''),
                (''erroperation'', JsString ''erasing''),
                (''errmsg'',
                 JsString (''Error occured when erasing. Errorcode: CouldNotErase (0xa)'' @ endl)),
                (''lowlevelErrorNo'', JsNumber 0),
                (''lowlevelError'', JsString ''SUCCESS''),
                (''output'', JsString []) ]\<rparr>
   \<and> show_dec (sint (10 :: c_int)) = ''10''
   \<and> \<not> sublist ''10'' (''Error occured when erasing. Errorcode: CouldNotErase (0xa)'' @ endl)"
  by (simp add: getErrorMessage_def Let_def Utility_Set_def Utility_Set_cstr_def Nan_Error_def
      toJsString_def toJsNumber_def errorStringStream_def valueToString_def
      nrfjprog_js_err_map_def nrfjprogdll_err_t_map_def NAME_MAP_ENTRY_def
      show_hex_def hex_of_nat.simps hex_digit_def
      show_dec_def dec_of_nat.simps dec_digit_def endl_def sublist_code)

text \<open>
  C2, amended. For every non-success binding code \<open>getErrorMessage\<close> returns an error
  object whose message is not empty, begins with
  \<open>Error occured when <description>. Errorcode: <name> (0x<hex>)\<close> and a line feed, and
  so contains the operation description and the binding error name followed by the
  code in base sixteen; the digits written denote the code read as an unsigned 32-bit
  value.
\<close>

theorem C2_message_description_name_hex:
  assumes "errorCode \<noteq> ec JsSuccess"
  shows "\<exists>e. getErrorMessage ec dc errorCode customMessage logmessage lowlevelError = Error e
     \<and> message e =
         JsString (errorStringStream ec dc errorCode customMessage logmessage lowlevelError)
     \<and> errorStringStream ec dc errorCode customMessage logmessage lowlevelError \<noteq> []
     \<and> prefix (''Error occured when '' @ customMessage @ ''. Errorcode: ''
                 @ valueToString errorCode (nrfjprog_js_err_map ec)
                 @ '' (0x'' @ show_hex errorCode @ '')'' @ endl)
          (errorStringStream ec dc errorCode customMessage logmessage lowlevelError)
     \<and> sublist customMessage
          (errorStringStream ec dc errorCode customMessage logmessage lowlevelError)
     \<and> sublist (valueToString errorCode (nrfjprog_js_err_map ec)
                  @ '' (0x'' @ show_hex errorCode @ '')'')
          (errorStringStream ec dc errorCode customMessage logmessage lowlevelError)
     \<and> hex_value (show_hex errorCode) = unat errorCode"
proof -
  let ?str = "errorStringStream ec dc errorCode customMessage logmessage lowlevelError"
  let ?name = "valueToString errorCode (nrfjprog_js_err_map ec)"
  let ?head = "''Error occured when '' @ customMessage @ ''. Errorcode: ''
                 @ ?name @ '' (0x'' @ show_hex errorCode @ '')'' @ endl"
  have pre: "prefix ?head ?str"
    by (rule binding_section_prefix)
  then have sub: "sublist ?head ?str"
    by (rule prefix_imp_sublist)
  have "sublist customMessage ?head"
    by (rule sublist_appendI)
  from this sub have op: "sublist customMessage ?str"
    by (rule sublist_order.order_trans)
  have "?head = (''Error occured when '' @ customMessage @ ''. Errorcode: '')
                  @ (?name @ '' (0x'' @ show_hex errorCode @ '')'') @ endl"
    by simp
  then have "sublist (?name @ '' (0x'' @ show_hex errorCode @ '')'') ?head"
    unfolding sublist_def by blast
  from this sub have nm: "sublist (?name @ '' (0x'' @ show_hex errorCode @ '')'') ?str"
    by (rule sublist_order.order_trans)
  have ne: "?str \<noteq> []"
    by (simp add: errorStringStream_sections)
  from assms pre op nm ne show ?thesis
    by (simp add: getErrorMessage_Error hex_value_show_hex)
qed

theorem C2_message_description_name_hex_witness:
  "(10 :: c_int) \<noteq> errorcodes_from_zero JsSuccess
   \<and> (\<exists>e. getErrorMessage errorcodes_from_zero err_t_from_zero 10 ''erasing'' [] 0 = Error e
        \<and> message e =
            JsString (''Error occured when erasing. Errorcode: CouldNotErase (0xa)'' @ endl)
        \<and> sublist ''erasing''
             (''Error occured when erasing. Errorcode: CouldNotErase (0xa)'' @ endl)
        \<and> sublist ''CouldNotErase (0xa)''
             (''Error occured when erasing. Errorcode: CouldNotErase (0xa)'' @ endl)
        \<and> hex_value ''a'' = 10)"
  using C2_message_description_name_hex
    [where errorCode = 10 and ec = errorcodes_from_zero and dc = err_t_from_zero
       and customMessage = "''erasing''" and logmessage = "[]" and lowlevelError = 0]
  by (simp add: errorStringStream_def valueToString_def nrfjprog_js_err_map_def
      show_hex_def hex_of_nat.simps hex_digit_def)

text \<open>
  C3. For a non-success binding code, the vendor code \<open>SUCCESS\<close> (zero in the spec's data
  model) and an empty log text, the message is the binding section alone: the operation
  description, the binding error name and the code, with no vendor section and no log
  section after it.
\<close>

theorem C3_binding_section_only:
  assumes "errorCode \<noteq> ec JsSuccess" and "lowlevelError = dc SUCCESS"
  shows "\<exists>e. getErrorMessage ec dc errorCode customMessage [] lowlevelError = Error e
     \<and> message e =
         JsString (''Error occured when '' @ customMessage @ ''. Errorcode: ''
                     @ valueToString errorCode (nrfjprog_js_err_map ec)
                     @ '' (0x'' @ show_hex errorCode @ '')'' @ endl)"
  using assms by (simp add: getErrorMessage_Error errorStringStream_sections)

theorem C3_binding_section_only_witness:
  "(10 :: c_int) \<noteq> errorcodes_from_zero JsSuccess
   \<and> (0 :: c_int) = err_t_from_zero SUCCESS
   \<and> (\<exists>e. getErrorMessage errorcodes_from_zero err_t_from_zero 10 ''erasing'' [] 0 = Error e
        \<and> message e =
            JsString (''Error occured when erasing. Errorcode: CouldNotErase (0xa)'' @ endl))"
  using C3_binding_section_only
    [where errorCode = 10 and ec = errorcodes_from_zero and dc = err_t_from_zero
       and customMessage = "''erasing''" and lowlevelError = 0]
  by (simp add: valueToString_def nrfjprog_js_err_map_def
      show_hex_def hex_of_nat.simps hex_digit_def)

text \<open>
  C4. For a non-success binding code and a non-zero vendor code the message is to contain
  the vendor error name and the vendor code's numeric value. The name is there; the
  number is not. Line 111 writes the vendor code with no prefix and no manipulator, but
  \<open>std::hex\<close> of line 107 is still set on the stream: the vendor code 26 is written
  \<open>(1a)\<close> and the vendor code -2 is written \<open>(fffffffe)\<close>, while the field
  \<open>lowlevelErrorNo\<close> holds 26 and -2, and neither message contains the code in base ten.
\<close>

theorem C4_vendor_code_written_in_hex:
  "getErrorMessage errorcodes_from_zero err_t_from_zero 10 ''erasing'' [] 26 =
     Error \<lparr>message =
              JsString (''Error occured when erasing. Errorcode: CouldNotErase (0xa)'' @ endl
                @ ''Lowlevel error: NRFJPROG_SUB_DLL_COULD_NOT_LOAD_FUNCTIONS (1a)'' @ endl),
            properties =
              [ (''errno'', JsNumber 10),
                (''errcode'', JsString ''CouldNotErase''),
                (''erroperation'', JsString ''erasing''),
                (''errmsg'',
                 JsString (''Error occured when erasing. Errorcode: CouldNotErase (0xa)'' @ endl
                   @ ''Lowlevel error: NRFJPROG_SUB_DLL_COULD_NOT_LOAD_FUNCTIONS (1a)'' @ endl)),
                (''lowlevelErrorNo'', JsNumber 26),
                (''lowlevelError'', JsString ''NRFJPROG_SUB_DLL_COULD_NOT_LOAD_FUNCTIONS''),
                (''output'', JsString []) ]\<rparr>
   \<and> show_dec (sint (26 :: c_int)) = ''26''
   \<and> \<not> sublist ''26''
         (''Error occured when erasing. Errorcode: CouldNotErase (0xa)'' @ endl
            @ ''Lowlevel error: NRFJPROG_SUB_DLL_COULD_NOT_LOAD_FUNCTIONS (1a)'' @ endl)
   \<and> errorStringStream errorcodes_from_zero err_t_from_zero 10 ''erasing'' [] (- 2) =
         ''Error occured when erasing. Errorcode: CouldNotErase (0xa)'' @ endl
           @ ''Lowlevel error: Unknown (fffffffe)'' @ endl
   \<and> show_dec (sint (- 2 :: c_int)) = ''-2''
   \<and> \<not> sublist ''-2''
         (''Error occured when erasing. Errorcode: CouldNotErase (0xa)'' @ endl
            @ ''Lowlevel error: Unknown (fffffffe)'' @ endl)"
  by (simp add: getErrorMessage_def Let_def Utility_Set_def Utility_Set_cstr_def Nan_Error_def
      toJsString_def toJsNumber_def errorStringStream_def valueToString_def
      nrfjprog_js_err_map_def nrfjprogdll_err_t_map_def NAME_MAP_ENTRY_def
      show_hex_def hex_of_nat.simps hex_digit_def
      show_dec_def dec_of_nat.simps dec_digit_def endl_def sublist_code)

text \<open>
  C5. A binding code with no entry in \<open>nrfjprog_js_err_map\<close> is not the success code, so
  \<open>getErrorMessage\<close> returns an error object; its \<open>errcode\<close> field and the name in its
  message are \<open>Unknown\<close>. A vendor code with no entry in \<open>nrfjprogdll_err_t_map\<close> is
  not \<open>SUCCESS\<close>; with a non-success binding code the \<open>lowlevelError\<close> field and the
  name in the vendor section are \<open>Unknown\<close>.
\<close>

theorem C5_unknown_codes:
  "(errorCode \<notin> fst ` set (nrfjprog_js_err_map ec) \<longrightarrow>
      (\<exists>e. getErrorMessage ec dc errorCode customMessage logmessage lowlevelError = Error e
         \<and> map_of (properties e) ''errcode'' = Some (JsString ''Unknown'')
         \<and> (\<exists>rest. message e =
               JsString (''Error occured when '' @ customMessage
                           @ ''. Errorcode: Unknown (0x'' @ show_hex errorCode @ '')''
                           @ endl @ rest))))
   \<and> (errorCode \<noteq> ec JsSuccess \<and> lowlevelError \<notin> fst ` set (nrfjprogdll_err_t_map dc) \<longrightarrow>
      (\<exists>e. getErrorMessage ec dc errorCode customMessage logmessage lowlevelError = Error e
         \<and> map_of (properties e) ''lowlevelError'' = Some (JsString ''Unknown'')
         \<and> (\<exists>front rest. message e =
               JsString (front @ ''Lowlevel error: Unknown ('' @ show_hex lowlevelError
                           @ '')'' @ endl @ rest))))"
proof (intro conjI impI)
  assume out: "errorCode \<notin> fst ` set (nrfjprog_js_err_map ec)"
  then have ne: "errorCode \<noteq> ec JsSuccess"
    using JsSuccess_in_table [of ec] by auto
  from out have nm: "valueToString errorCode (nrfjprog_js_err_map ec) = ''Unknown''"
    by (rule valueToString_Unknown)
  show "\<exists>e. getErrorMessage ec dc errorCode customMessage logmessage lowlevelError = Error e
         \<and> map_of (properties e) ''errcode'' = Some (JsString ''Unknown'')
         \<and> (\<exists>rest. message e =
               JsString (''Error occured when '' @ customMessage
                           @ ''. Errorcode: Unknown (0x'' @ show_hex errorCode @ '')''
                           @ endl @ rest))"
    using ne by (simp add: getErrorMessage_Error errorStringStream_sections nm)
next
  assume "errorCode \<noteq> ec JsSuccess \<and> lowlevelError \<notin> fst ` set (nrfjprogdll_err_t_map dc)"
  then have ne: "errorCode \<noteq> ec JsSuccess"
    and out: "lowlevelError \<notin> fst ` set (nrfjprogdll_err_t_map dc)"
    by simp_all
  from out have ns: "lowlevelError \<noteq> dc SUCCESS"
    using SUCCESS_in_table [of dc] by auto
  from out have nm: "valueToString lowlevelError (nrfjprogdll_err_t_map dc) = ''Unknown''"
    by (rule valueToString_Unknown)
  let ?front = "''Error occured when '' @ customMessage @ ''. Errorcode: ''
                  @ valueToString errorCode (nrfjprog_js_err_map ec)
                  @ '' (0x'' @ show_hex errorCode @ '')'' @ endl"
  let ?rest = "if logmessage \<noteq> [] then logmessage @ endl else []"
  have "errorStringStream ec dc errorCode customMessage logmessage lowlevelError =
          ?front @ ''Lowlevel error: Unknown ('' @ show_hex lowlevelError @ '')'' @ endl @ ?rest"
    using ns by (simp add: errorStringStream_sections nm)
  then have "\<exists>front rest.
        errorStringStream ec dc errorCode customMessage logmessage lowlevelError =
          front @ ''Lowlevel error: Unknown ('' @ show_hex lowlevelError @ '')'' @ endl @ rest"
    by blast
  then show "\<exists>e. getErrorMessage ec dc errorCode customMessage logmessage lowlevelError = Error e
         \<and> map_of (properties e) ''lowlevelError'' = Some (JsString ''Unknown'')
         \<and> (\<exists>front rest. message e =
               JsString (front @ ''Lowlevel error: Unknown ('' @ show_hex lowlevelError
                           @ '')'' @ endl @ rest))"
    using ne by (simp add: getErrorMessage_Error nm)
qed

theorem C5_unknown_codes_witness:
  "(- 2 :: c_int) \<notin> fst ` set (nrfjprog_js_err_map errorcodes_from_zero)
   \<and> (- 2 :: c_int) \<noteq> errorcodes_from_zero JsSuccess
   \<and> (100 :: c_int) \<notin> fst ` set (nrfjprogdll_err_t_map err_t_from_zero)
   \<and> (\<exists>e. getErrorMessage errorcodes_from_zero err_t_from_zero (- 2) ''erasing'' [] 100
              = Error e
        \<and> map_of (properties e) ''errcode'' = Some (JsString ''Unknown'')
        \<and> map_of (properties e) ''lowlevelError'' = Some (JsString ''Unknown'')
        \<and> message e =
            JsString (''Error occured when erasing. Errorcode: Unknown (0xfffffffe)'' @ endl
              @ ''Lowlevel error: Unknown (64)'' @ endl))"
proof -
  have binding: "(- 2 :: c_int) \<notin> fst ` set (nrfjprog_js_err_map errorcodes_from_zero)"
    by (simp add: nrfjprog_js_err_map_def)
  have ne: "(- 2 :: c_int) \<noteq> errorcodes_from_zero JsSuccess"
    by simp
  have vendor: "(100 :: c_int) \<notin> fst ` set (nrfjprogdll_err_t_map err_t_from_zero)"
    by (simp add: nrfjprogdll_err_t_map_def NAME_MAP_ENTRY_def)
  have msg: "errorStringStream errorcodes_from_zero err_t_from_zero (- 2) ''erasing'' [] 100 =
      ''Error occured when erasing. Errorcode: Unknown (0xfffffffe)'' @ endl
        @ ''Lowlevel error: Unknown (64)'' @ endl"
    by (simp add: errorStringStream_def valueToString_def nrfjprog_js_err_map_def
        nrfjprogdll_err_t_map_def NAME_MAP_ENTRY_def show_hex_def hex_of_nat.simps hex_digit_def)
  from C5_unknown_codes
    [where errorCode = "- 2" and ec = errorcodes_from_zero and dc = err_t_from_zero
       and customMessage = "''erasing''" and logmessage = "[]" and lowlevelError = 100]
    binding ne vendor
  have "\<exists>e. getErrorMessage errorcodes_from_zero err_t_from_zero (- 2) ''erasing'' [] 100
              = Error e
        \<and> map_of (properties e) ''errcode'' = Some (JsString ''Unknown'')
        \<and> map_of (properties e) ''lowlevelError'' = Some (JsString ''Unknown'')"
    by auto
  moreover have "\<forall>e. getErrorMessage errorcodes_from_zero err_t_from_zero (- 2) ''erasing'' [] 100
              = Error e \<longrightarrow> message e =
            JsString (''Error occured when erasing. Errorcode: Unknown (0xfffffffe)'' @ endl
              @ ''Lowlevel error: Unknown (64)'' @ endl)"
    using ne by (auto simp add: getErrorMessage_Error msg)
  ultimately show ?thesis
    using binding ne vendor by blast
qed

text \<open>
  C6. \<open>getTypeErrorMessage n s\<close> is \<open><Ordinal> argument must be a <s>\<close>, the ordinal
  being \<open>First\<close> to \<open>Seventh\<close> for the indices 0 to 6 and \<open>Unknown\<close> for every other
  index, 7 and above and the negative ones included.
\<close>

theorem C6_type_error_message:
  "getTypeErrorMessage 0 s = JsString (''First argument must be a '' @ s)
   \<and> getTypeErrorMessage 1 s = JsString (''Second argument must be a '' @ s)
   \<and> getTypeErrorMessage 2 s = JsString (''Third argument must be a '' @ s)
   \<and> getTypeErrorMessage 3 s = JsString (''Fourth argument must be a '' @ s)
   \<and> getTypeErrorMessage 4 s = JsString (''Fifth argument must be a '' @ s)
   \<and> getTypeErrorMessage 5 s = JsString (''Sixth argument must be a '' @ s)
   \<and> getTypeErrorMessage 6 s = JsString (''Seventh argument must be a '' @ s)
   \<and> (n \<notin> {0, 1, 2, 3, 4, 5, 6} \<longrightarrow>
        getTypeErrorMessage n s = JsString (''Unknown argument must be a '' @ s))"
  by (simp add: getTypeErrorMessage_def toJsString_def)

theorem C6_type_error_message_witness:
  "(7 :: c_int) \<notin> {0, 1, 2, 3, 4, 5, 6}
   \<and> (- 1 :: c_int) \<notin> {0, 1, 2, 3, 4, 5, 6}
   \<and> sint (- 1 :: c_int) = - 1
   \<and> getTypeErrorMessage 0 ''number'' = JsString ''First argument must be a number''
   \<and> getTypeErrorMessage 6 ''number'' = JsString ''Seventh argument must be a number''
   \<and> getTypeErrorMessage 7 ''number'' = JsString ''Unknown argument must be a number''
   \<and> getTypeErrorMessage (- 1) ''number'' = JsString ''Unknown argument must be a number''"
  using C6_type_error_message [of "''number''" 7] C6_type_error_message [of "''number''" "- 1"]
  by simp

text \<open>
  C7. The field-error sentence is exactly \<open>Property: <name> Message: <message>\<close>; for
  the name \<open>foo\<close> and the message \<open>bar\<close> it is \<open>Property: foo Message: bar\<close>.
\<close>

theorem C7_struct_error_message:
  "getStructErrorMessage name msg = JsString (''Property: '' @ name @ '' Message: '' @ msg)
   \<and> getStructErrorMessage ''foo'' ''bar'' = JsString ''Property: foo Message: bar''"
  by (simp add: getStructErrorMessage_def toJsString_def)

text \<open>
  C8. For a non-success binding code the error object carries exactly seven fields:
  \<open>errno\<close> (the binding code as a number), \<open>errcode\<close> (the binding error name),
  \<open>erroperation\<close> (the operation description), \<open>errmsg\<close> (the composed message),
  \<open>lowlevelErrorNo\<close> (the vendor code as a number), \<open>lowlevelError\<close> (the vendor error
  name) and \<open>output\<close> (the log text).
\<close>

theorem C8_seven_fields:
  assumes "errorCode \<noteq> ec JsSuccess"
  shows "\<exists>e. getErrorMessage ec dc errorCode customMessage logmessage lowlevelError = Error e
     \<and> properties e =
         [ (''errno'', JsNumber (sint errorCode)),
           (''errcode'', JsString (valueToString errorCode (nrfjprog_js_err_map ec))),
           (''erroperation'', JsString customMessage),
           (''errmsg'',
            JsString (errorStringStream ec dc errorCode customMessage logmessage lowlevelError)),
           (''lowlevelErrorNo'', JsNumber (sint lowlevelError)),
           (''lowlevelError'',
            JsString (valueToString lowlevelError (nrfjprogdll_err_t_map dc))),
           (''output'', JsString logmessage) ]"
  using assms by (simp add: getErrorMessage_Error)

theorem C8_seven_fields_witness:
  "(10 :: c_int) \<noteq> errorcodes_from_zero JsSuccess
   \<and> (\<exists>e. getErrorMessage errorcodes_from_zero err_t_from_zero 10 ''erasing'' ''log'' (- 2)
              = Error e
        \<and> properties e =
            [ (''errno'', JsNumber 10),
              (''errcode'', JsString ''CouldNotErase''),
              (''erroperation'', JsString ''erasing''),
              (''errmsg'',
               JsString (''Error occured when erasing. Errorcode: CouldNotErase (0xa)'' @ endl
                 @ ''Lowlevel error: Unknown (fffffffe)'' @ endl @ ''log'' @ endl)),
              (''lowlevelErrorNo'', JsNumber (- 2)),
              (''lowlevelError'', JsString ''Unknown''),
              (''output'', JsString ''log'') ])"
  using C8_seven_fields
    [where errorCode = 10 and ec = errorcodes_from_zero and dc = err_t_from_zero
       and customMessage = "''erasing''" and logmessage = "''log''" and lowlevelError = "- 2"]
  by (simp add: errorStringStream_def valueToString_def nrfjprog_js_err_map_def
      nrfjprogdll_err_t_map_def NAME_MAP_ENTRY_def show_hex_def hex_of_nat.simps hex_digit_def)

text \<open>
  C10. For a non-success binding code the \<open>errmsg\<close> field of the error object is the
  very message the error object was created with, the composed message text.
\<close>

theorem C10_errmsg_is_message:
  assumes "errorCode \<noteq> ec JsSuccess"
  shows "\<exists>e. getErrorMessage ec dc errorCode customMessage logmessage lowlevelError = Error e
     \<and> map_of (properties e) ''errmsg'' = Some (message e)
     \<and> message e =
         JsString (errorStringStream ec dc errorCode customMessage logmessage lowlevelError)"
  using assms by (simp add: getErrorMessage_Error)

theorem C10_errmsg_is_message_witness:
  "(10 :: c_int) \<noteq> errorcodes_from_zero JsSuccess
   \<and> (\<exists>e. getErrorMessage errorcodes_from_zero err_t_from_zero 10 ''erasing'' ''log'' 26
              = Error e
        \<and> map_of (properties e) ''errmsg'' = Some (message e)
        \<and> message e =
            JsString (''Error occured when erasing. Errorcode: CouldNotErase (0xa)'' @ endl
              @ ''Lowlevel error: NRFJPROG_SUB_DLL_COULD_NOT_LOAD_FUNCTIONS (1a)'' @ endl
              @ ''log'' @ endl))"
  using C10_errmsg_is_message
    [where errorCode = 10 and ec = errorcodes_from_zero and dc = err_t_from_zero
       and customMessage = "''erasing''" and logmessage = "''log''" and lowlevelError = 26]
  by (simp add: errorStringStream_def valueToString_def nrfjprog_js_err_map_def
      nrfjprogdll_err_t_map_def NAME_MAP_ENTRY_def show_hex_def hex_of_nat.simps hex_digit_def)

end
